theory Spec2Isabelle
  imports Main
begin

section \<open>Python dictionaries\<close>

text \<open>
  A Python dict keeps insertion order and has one entry per key.  It is modelled as an
  association list with the dict's own store operation: storing under a key that is
  already present replaces the value where the key stands, storing under a new key
  appends the entry.
\<close>

type_synonym ('k, 'v) dict = "('k \<times> 'v) list"

fun dict_set :: "'k \<Rightarrow> 'v \<Rightarrow> ('k, 'v) dict \<Rightarrow> ('k, 'v) dict" where
  "dict_set k v [] = [(k, v)]"
| "dict_set k v (p # d) = (if fst p = k then (k, v) # d else p # dict_set k v d)"

definition dict_keys :: "('k, 'v) dict \<Rightarrow> 'k list" where
  "dict_keys d = map fst d"


section \<open>Errors raised by the sampler\<close>

datatype error =
    KeyError
  | ValueError_time_attr_not_supported
  | ValueError_unpack
  | IndexError
  | TypeError_iteration
  | TypeError_invalid_type
  | RuntimeError_operator_not_found
  | RuntimeError_upgrade_torch_sparse
  | AttributeError_operator_not_found
  | AttributeError_no_attribute
  | BackendError nat

section \<open>Edge types and their string form\<close>

text \<open>
  An edge type is a triplet of strings; \<open>'__'.join(key)\<close> glues its components with two
  underscores.
\<close>

type_synonym edge_type = "string \<times> string \<times> string"




section \<open>remap_keys\<close>

text \<open>
  \<open>{mapping[k]: v for k, v in original.items()}\<close>: the items are visited in order, a key
  missing from \<open>mapping\<close> raises KeyError, and two keys with the same image share one
  entry, which keeps the later value.
\<close>

fun remap_loop :: "('k, 'v) dict \<Rightarrow> ('k, 'j) dict \<Rightarrow> ('j, 'v) dict \<Rightarrow> error + ('j, 'v) dict" where
  "remap_loop [] mapping acc = Inr acc"
| "remap_loop ((k, v) # items) mapping acc =
     (case map_of mapping k of
        None \<Rightarrow> Inl KeyError
      | Some k' \<Rightarrow> remap_loop items mapping (dict_set k' v acc))"

definition remap_keys :: "('k, 'v) dict \<Rightarrow> ('k, 'j) dict \<Rightarrow> error + ('j, 'v) dict" where
  "remap_keys original mapping = remap_loop original mapping []"

section \<open>Tensors\<close>

text \<open>
  The integer tensors the sampler handles have zero, one or two dimensions.  \<open>T2 c rows\<close>
  is a matrix with \<open>c\<close> columns given by its rows (each of length \<open>c\<close>); the column count
  is kept because a matrix may have no row.
\<close>

datatype tensor = T0 int | T1 "int list" | T2 nat "int list list"

fun numel :: "tensor \<Rightarrow> nat" where
  "numel (T0 x) = 1"
| "numel (T1 xs) = length xs"
| "numel (T2 c rows) = length rows * c"

text \<open>\<open>v.t().contiguous()\<close>: transposition; tensors below two dimensions are returned as is.\<close>

fun tensor_t :: "tensor \<Rightarrow> tensor" where
  "tensor_t (T0 x) = T0 x"
| "tensor_t (T1 xs) = T1 xs"
| "tensor_t (T2 c rows) = T2 (length rows) (map (\<lambda>j. map (\<lambda>r. r ! j) rows) [0..<c])"

text \<open>Iterating a tensor walks its first dimension; a 0-d tensor cannot be iterated.\<close>

fun tensor_iter :: "tensor \<Rightarrow> error + tensor list" where
  "tensor_iter (T0 x) = Inl TypeError_iteration"
| "tensor_iter (T1 xs) = Inr (map T0 xs)"
| "tensor_iter (T2 c rows) = Inr (map T1 rows)"

text \<open>\<open>a, b = t\<close>: the tensor must have exactly two entries along its first dimension.\<close>

definition unpack2 :: "tensor \<Rightarrow> error + (tensor \<times> tensor)" where
  "unpack2 t =
     (case tensor_iter t of
        Inl e \<Rightarrow> Inl e
      | Inr [a, b] \<Rightarrow> Inr (a, b)
      | Inr _ \<Rightarrow> Inl ValueError_unpack)"

text \<open>\<open>v[i]\<close> for a natural number \<open>i\<close>.\<close>

fun tensor_index :: "tensor \<Rightarrow> nat \<Rightarrow> error + tensor" where
  "tensor_index (T0 x) i = Inl IndexError"
| "tensor_index (T1 xs) i = (if i < length xs then Inr (T0 (xs ! i)) else Inl IndexError)"
| "tensor_index (T2 c rows) i = (if i < length rows then Inr (T1 (rows ! i)) else Inl IndexError)"

text \<open>
  \<open>{k: f(v) for k, v in d.items()}\<close> for an \<open>f\<close> that may raise: the keys are unchanged, the
  first failure ends the comprehension.
\<close>

fun dict_map_values :: "('v \<Rightarrow> error + 'w) \<Rightarrow> ('k, 'v) dict \<Rightarrow> error + ('k, 'w) dict" where
  "dict_map_values f [] = Inr []"
| "dict_map_values f ((k, v) # items) =
     (case f v of
        Inl e \<Rightarrow> Inl e
      | Inr w \<Rightarrow> (case dict_map_values f items of
                   Inl e \<Rightarrow> Inl e
                 | Inr rest \<Rightarrow> Inr ((k, w) # rest)))"

section \<open>The sampler object\<close>

datatype data_cls = DataCls | HeteroDataCls | Custom

text \<open>
  \<open>num_neighbors\<close> is one list of budgets, or a dict of such lists keyed by edge type;
  the constructor rekeys the dict by the joined strings.
\<close>

datatype num_neighbors =
    Schedule "int list"
  | PerEdgeType "(edge_type, int list) dict"
  | PerRelType "(string, int list) dict"

text \<open>
  The outputs \<open>SamplerOutput\<close> and \<open>HeteroSamplerOutput\<close> have the same fields; the
  heterogeneous one holds dicts (nodes and batch by node type, the rest by edge type).
\<close>

record ('n, 'e) sampler_output =
  node :: 'n
  row :: 'e
  col :: 'e
  edge :: 'e
  batch :: "'n option"
  metadata :: nat

datatype sample_output =
    SamplerOutput "(tensor, tensor) sampler_output"
  | HeteroSamplerOutput "((string, tensor) dict, (edge_type, tensor) dict) sampler_output"

text \<open>
  The attributes of a \<open>NeighborSampler\<close>.  The three CSC arrays of the homogeneous case
  are \<open>self.colptr\<close>, \<open>self.row\<close> and \<open>self.perm\<close>.
\<close>

record sampler =
  data_cls :: data_cls
  num_neighbors :: num_neighbors
  replace :: bool
  directed :: bool
  node_time :: "tensor option"
  self_colptr :: tensor
  self_row :: tensor
  self_perm :: tensor
  node_time_dict :: "(string, tensor) dict option"
  node_types :: "string list"
  edge_types :: "edge_type list"
  num_hops :: nat
  input_type :: string
  to_rel_type :: "(edge_type, string) dict"
  to_edge_type :: "(string, edge_type) dict"
  row_dict :: "(string, tensor) dict"
  colptr_dict :: "(string, tensor) dict"
  perm_dict :: "(string, tensor) dict"

text \<open>
  \<open>**kwargs\<close> of \<open>sample\<close>: the two keys the method reads.  \<open>None\<close> is an absent key,
  \<open>Some v\<close> a key present with value \<open>v\<close> (which may itself be Python's None).
\<close>

record kwargs =
  kw_node_time :: "tensor option option"
  kw_node_time_dict :: "(string, tensor) dict option option"

text \<open>\<open>kwargs.get(key, default)\<close>\<close>

definition kwargs_get :: "'a option \<Rightarrow> 'a \<Rightarrow> 'a" where
  "kwargs_get entry dflt = (case entry of None \<Rightarrow> dflt | Some v \<Rightarrow> v)"

section \<open>The native sampling operators\<close>

text \<open>
  The five operators of \<open>pyg-lib\<close> and \<open>torch-sparse\<close> are external to the repository.
  They are parameters of the model: each takes the argument tuple the sampler builds and
  returns four results or raises.  The argument records list the positional arguments in
  the order of the call.
\<close>

record pyg_hetero_args =
  ph_node_types :: "string list"
  ph_edge_types :: "edge_type list"
  ph_colptr_dict :: "(string, tensor) dict"
  ph_row_dict :: "(string, tensor) dict"
  ph_seed_dict :: "(string, tensor) dict"
  ph_num_neighbors :: num_neighbors
  ph_node_time_dict :: "(string, tensor) dict option"
  ph_csc :: bool
  ph_replace :: bool
  ph_directed :: bool
  ph_disjoint :: bool
  ph_return_edge_id :: bool

record pyg_args =
  pn_colptr :: tensor
  pn_row :: tensor
  pn_seed :: tensor
  pn_num_neighbors :: num_neighbors
  pn_node_time :: "tensor option"
  pn_csc :: bool
  pn_replace :: bool
  pn_directed :: bool
  pn_disjoint :: bool
  pn_return_edge_id :: bool

record ts_hetero_args =
  th_node_types :: "string list"
  th_edge_types :: "edge_type list"
  th_colptr_dict :: "(string, tensor) dict"
  th_row_dict :: "(string, tensor) dict"
  th_seed_dict :: "(string, tensor) dict"
  th_num_neighbors :: num_neighbors
  th_num_hops :: nat
  th_replace :: bool
  th_directed :: bool

record ts_hetero_temporal_args =
  tt_node_types :: "string list"
  tt_edge_types :: "edge_type list"
  tt_colptr_dict :: "(string, tensor) dict"
  tt_row_dict :: "(string, tensor) dict"
  tt_seed_dict :: "(string, tensor) dict"
  tt_num_neighbors :: num_neighbors
  tt_node_time_dict :: "(string, tensor) dict option"
  tt_num_hops :: nat
  tt_replace :: bool
  tt_directed :: bool

record ts_args =
  tn_colptr :: tensor
  tn_row :: tensor
  tn_index :: tensor
  tn_num_neighbors :: num_neighbors
  tn_replace :: bool
  tn_directed :: bool

type_synonym hetero_result =
  "(string, tensor) dict \<times> (string, tensor) dict \<times> (string, tensor) dict \<times> (string, tensor) dict"

type_synonym homo_result = "tensor \<times> tensor \<times> tensor \<times> tensor"

text \<open>
  \<open>with_pyg_lib\<close> is the module flag \<open>_WITH_PYG_LIB\<close>.  The temporal operator of
  \<open>torch-sparse\<close> exists only from version 0.6.15 on.  Looking up a missing operator in
  \<open>torch.ops\<close> fails inside torch, with RuntimeError in its older versions and with
  AttributeError from 1.13 on; which of the two is part of the backend.
\<close>

datatype lookup_failure = Lookup_RuntimeError | Lookup_AttributeError

record backend =
  with_pyg_lib :: bool
  pyg_hetero_neighbor_sample_cpu :: "pyg_hetero_args \<Rightarrow> error + hetero_result"
  pyg_neighbor_sample :: "pyg_args \<Rightarrow> error + homo_result"
  ts_hetero_neighbor_sample :: "ts_hetero_args \<Rightarrow> error + hetero_result"
  ts_hetero_temporal_neighbor_sample ::
    "lookup_failure + (ts_hetero_temporal_args \<Rightarrow> error + hetero_result)"
  ts_neighbor_sample :: "ts_args \<Rightarrow> error + homo_result"

text \<open>The operator calls a method has made, oldest first, each with its arguments.\<close>

datatype call =
    Pyg_hetero_neighbor_sample_cpu pyg_hetero_args
  | Pyg_neighbor_sample pyg_args
  | Ts_hetero_neighbor_sample ts_hetero_args
  | Ts_hetero_temporal_neighbor_sample ts_hetero_temporal_args
  | Ts_neighbor_sample ts_args

section \<open>The constructor\<close>

text \<open>
  \<open>_set_num_neighbors_and_num_hops\<close>: a list is copied to every edge type; \<open>num_hops\<close> is
  \<open>max([0] + [len(v) for v in self.num_neighbors.values()])\<close>.  The assertion accepts every
  dict, whatever its keys; it fails on a list only, which the first step has already
  replaced.
\<close>

datatype init_error = AssertionError | InitKeyError




text \<open>
  The branch of \<open>__init__\<close> for a \<open>Data\<close> object.  \<open>data[time_attr]\<close> and the result of
  \<open>to_csc\<close> come from code outside this module and are parameters.
\<close>

definition init_data ::
    "num_neighbors \<Rightarrow> bool \<Rightarrow> bool \<Rightarrow> tensor option \<Rightarrow> tensor \<times> tensor \<times> tensor \<Rightarrow>
     init_error + sampler" where
  "init_data nn repl dir time csc =
     (case csc of (cp, rw, pm) \<Rightarrow>
        (case nn of
           Schedule l \<Rightarrow>
             Inr \<lparr>data_cls = DataCls, num_neighbors = nn, replace = repl, directed = dir,
                  node_time = time, self_colptr = cp, self_row = rw, self_perm = pm,
                  node_time_dict = None, node_types = [], edge_types = [], num_hops = 0,
                  input_type = [], to_rel_type = [], to_edge_type = [],
                  row_dict = [], colptr_dict = [], perm_dict = []\<rparr>
         | _ \<Rightarrow> Inl AssertionError))"

definition remap_init :: "('k, 'v) dict \<Rightarrow> ('k, 'j) dict \<Rightarrow> init_error + ('j, 'v) dict" where
  "remap_init original mapping =
     (case remap_keys original mapping of Inl e \<Rightarrow> Inl InitKeyError | Inr d \<Rightarrow> Inr d)"


section \<open>sample\<close>

text \<open>
  With \<open>disjoint\<close>, each node tensor of the heterogeneous result is transposed and split
  into its first row (the batch) and its second (the nodes).
\<close>

definition hetero_disjoint_split ::
    "(string, tensor) dict \<Rightarrow> error + ((string, tensor) dict \<times> (string, tensor) dict)" where
  "hetero_disjoint_split nd =
     (let nd' = map (\<lambda>(k, v). (k, tensor_t v)) nd in
      case dict_map_values (\<lambda>v. tensor_index v 0) nd' of
        Inl e \<Rightarrow> Inl e
      | Inr bt \<Rightarrow> (case dict_map_values (\<lambda>v. tensor_index v 1) nd' of
                   Inl e \<Rightarrow> Inl e
                 | Inr nd'' \<Rightarrow> Inr (bt, nd'')))"

text \<open>The \<open>HeteroSamplerOutput(...)\<close> expression, its keyword arguments evaluated in order.\<close>

definition hetero_output ::
    "sampler \<Rightarrow> tensor \<Rightarrow> (string, tensor) dict \<Rightarrow> (string, tensor) dict \<Rightarrow>
     (string, tensor) dict \<Rightarrow> (string, tensor) dict \<Rightarrow> (string, tensor) dict option \<Rightarrow>
     error + sample_output" where
  "hetero_output s index nd rw cl ed bt =
     (case remap_keys rw (to_edge_type s) of Inl e \<Rightarrow> Inl e | Inr rw' \<Rightarrow>
     (case remap_keys cl (to_edge_type s) of Inl e \<Rightarrow> Inl e | Inr cl' \<Rightarrow>
     (case remap_keys ed (to_edge_type s) of Inl e \<Rightarrow> Inl e | Inr ed' \<Rightarrow>
        Inr (HeteroSamplerOutput
              \<lparr>node = nd, row = rw', col = cl', edge = ed', batch = bt,
               metadata = numel index\<rparr>))))"

definition sample_hetero_pyg ::
    "backend \<Rightarrow> sampler \<Rightarrow> tensor \<Rightarrow> kwargs \<Rightarrow> call list \<times> (error + sample_output)" where
  "sample_hetero_pyg env s index kw =
     (let disjoint = (node_time_dict s \<noteq> None);
          args = \<lparr>ph_node_types = node_types s, ph_edge_types = edge_types s,
                  ph_colptr_dict = colptr_dict s, ph_row_dict = row_dict s,
                  ph_seed_dict = [(input_type s, index)],
                  ph_num_neighbors = num_neighbors s,
                  ph_node_time_dict = kwargs_get (kw_node_time_dict kw) (node_time_dict s),
                  ph_csc = True, ph_replace = replace s, ph_directed = directed s,
                  ph_disjoint = disjoint, ph_return_edge_id = True\<rparr>
      in ([Pyg_hetero_neighbor_sample_cpu args],
          case pyg_hetero_neighbor_sample_cpu env args of
            Inl e \<Rightarrow> Inl e
          | Inr (rw, cl, nd, ed) \<Rightarrow>
              (if disjoint then
                 (case hetero_disjoint_split nd of
                    Inl e \<Rightarrow> Inl e
                  | Inr (bt, nd') \<Rightarrow> hetero_output s index nd' rw cl ed (Some bt))
               else hetero_output s index nd rw cl ed None)))"

definition sample_hetero_sparse ::
    "backend \<Rightarrow> sampler \<Rightarrow> tensor \<Rightarrow> kwargs \<Rightarrow> call list \<times> (error + sample_output)" where
  "sample_hetero_sparse env s index kw =
     (if node_time_dict s = None then
        (let args = \<lparr>th_node_types = node_types s, th_edge_types = edge_types s,
                     th_colptr_dict = colptr_dict s, th_row_dict = row_dict s,
                     th_seed_dict = [(input_type s, index)],
                     th_num_neighbors = num_neighbors s, th_num_hops = num_hops s,
                     th_replace = replace s, th_directed = directed s\<rparr>
         in ([Ts_hetero_neighbor_sample args],
             case ts_hetero_neighbor_sample env args of
               Inl e \<Rightarrow> Inl e
             | Inr (nd, rw, cl, ed) \<Rightarrow> hetero_output s index nd rw cl ed None))
      else
        (case ts_hetero_temporal_neighbor_sample env of
           Inl Lookup_RuntimeError \<Rightarrow> ([], Inl RuntimeError_operator_not_found)
         | Inl Lookup_AttributeError \<Rightarrow> ([], Inl AttributeError_operator_not_found)
         | Inr fn \<Rightarrow>
             (let args = \<lparr>tt_node_types = node_types s, tt_edge_types = edge_types s,
                          tt_colptr_dict = colptr_dict s, tt_row_dict = row_dict s,
                          tt_seed_dict = [(input_type s, index)],
                          tt_num_neighbors = num_neighbors s,
                          tt_node_time_dict =
                            kwargs_get (kw_node_time_dict kw) (node_time_dict s),
                          tt_num_hops = num_hops s,
                          tt_replace = replace s, tt_directed = directed s\<rparr>
              in ([Ts_hetero_temporal_neighbor_sample args],
                  case fn args of
                    Inl e \<Rightarrow> Inl e
                  | Inr (nd, rw, cl, ed) \<Rightarrow> hetero_output s index nd rw cl ed None))))"

definition homo_output ::
    "tensor \<Rightarrow> tensor \<Rightarrow> tensor \<Rightarrow> tensor \<Rightarrow> tensor \<Rightarrow> tensor option \<Rightarrow> sample_output" where
  "homo_output index nd rw cl ed bt =
     SamplerOutput \<lparr>node = nd, row = rw, col = cl, edge = ed, batch = bt,
                    metadata = numel index\<rparr>"

definition sample_homo_pyg ::
    "backend \<Rightarrow> sampler \<Rightarrow> tensor \<Rightarrow> kwargs \<Rightarrow> call list \<times> (error + sample_output)" where
  "sample_homo_pyg env s index kw =
     (let disjoint = (node_time s \<noteq> None);
          args = \<lparr>pn_colptr = self_colptr s, pn_row = self_row s, pn_seed = index,
                  pn_num_neighbors = num_neighbors s,
                  pn_node_time = kwargs_get (kw_node_time kw) (node_time s),
                  pn_csc = True, pn_replace = replace s, pn_directed = directed s,
                  pn_disjoint = disjoint, pn_return_edge_id = True\<rparr>
      in ([Pyg_neighbor_sample args],
          case pyg_neighbor_sample env args of
            Inl e \<Rightarrow> Inl e
          | Inr (rw, cl, nd, ed) \<Rightarrow>
              (if disjoint then
                 (case unpack2 (tensor_t nd) of
                    Inl e \<Rightarrow> Inl e
                  | Inr (bt, nd') \<Rightarrow> Inr (homo_output index nd' rw cl ed (Some bt)))
               else Inr (homo_output index nd rw cl ed None))))"

definition sample_homo_sparse ::
    "backend \<Rightarrow> sampler \<Rightarrow> tensor \<Rightarrow> kwargs \<Rightarrow> call list \<times> (error + sample_output)" where
  "sample_homo_sparse env s index kw =
     (if node_time s \<noteq> None then ([], Inl ValueError_time_attr_not_supported)
      else
        (let args = \<lparr>tn_colptr = self_colptr s, tn_row = self_row s, tn_index = index,
                     tn_num_neighbors = num_neighbors s,
                     tn_replace = replace s, tn_directed = directed s\<rparr>
         in ([Ts_neighbor_sample args],
             case ts_neighbor_sample env args of
               Inl e \<Rightarrow> Inl e
             | Inr (nd, rw, cl, ed) \<Rightarrow> Inr (homo_output index nd rw cl ed None))))"

text \<open>
  \<open>NeighborSampler.sample\<close>.  The result pairs the operator calls made with the value
  returned or the exception raised.
\<close>

definition sample ::
    "backend \<Rightarrow> sampler \<Rightarrow> tensor \<Rightarrow> kwargs \<Rightarrow> call list \<times> (error + sample_output)" where
  "sample env s index kw =
     (if data_cls s = Custom \<or> data_cls s = HeteroDataCls then
        (if with_pyg_lib env then sample_hetero_pyg env s index kw
         else sample_hetero_sparse env s index kw)
      else if data_cls s = DataCls then
        (if with_pyg_lib env then sample_homo_pyg env s index kw
         else sample_homo_sparse env s index kw)
      else ([], Inl TypeError_invalid_type))"

text \<open>
  \<open>_sparse_neighbor_sample\<close>.  Only a sampler built from a \<open>Data\<close> object has the
  attributes \<open>colptr\<close>, \<open>row\<close> and \<open>perm\<close>; reading \<open>self.colptr\<close> of another one raises
  AttributeError.  The method does not read \<open>self.node_time\<close>.
\<close>

definition sparse_neighbor_sample ::
    "backend \<Rightarrow> sampler \<Rightarrow> tensor \<Rightarrow> call list \<times> (error + homo_result)" where
  "sparse_neighbor_sample env s index =
     (if data_cls s \<noteq> DataCls then ([], Inl AttributeError_no_attribute)
      else
        (let args = \<lparr>tn_colptr = self_colptr s, tn_row = self_row s, tn_index = index,
                     tn_num_neighbors = num_neighbors s,
                     tn_replace = replace s, tn_directed = directed s\<rparr>
         in ([Ts_neighbor_sample args], ts_neighbor_sample env args)))"

text \<open>
  \<open>_hetero_sparse_neighbor_sample\<close>: the seeds come as a dict from node type to tensor.
  A sampler built from a \<open>Data\<close> object has no attribute \<open>node_time_dict\<close>, and reading it
  raises AttributeError.  The handler around the lookup of the temporal operator catches
  RuntimeError only and turns it into the request to upgrade \<open>torch_sparse\<close>; an
  AttributeError from the lookup passes through.
\<close>

definition hetero_sparse_neighbor_sample ::
    "backend \<Rightarrow> sampler \<Rightarrow> (string, tensor) dict \<Rightarrow> kwargs \<Rightarrow>
     call list \<times> (error + hetero_result)" where
  "hetero_sparse_neighbor_sample env s index_dict kw =
     (if data_cls s = DataCls then ([], Inl AttributeError_no_attribute)
      else if node_time_dict s = None then
        (let args = \<lparr>th_node_types = node_types s, th_edge_types = edge_types s,
                     th_colptr_dict = colptr_dict s, th_row_dict = row_dict s,
                     th_seed_dict = index_dict,
                     th_num_neighbors = num_neighbors s, th_num_hops = num_hops s,
                     th_replace = replace s, th_directed = directed s\<rparr>
         in ([Ts_hetero_neighbor_sample args], ts_hetero_neighbor_sample env args))
      else
        (case ts_hetero_temporal_neighbor_sample env of
           Inl Lookup_RuntimeError \<Rightarrow> ([], Inl RuntimeError_upgrade_torch_sparse)
         | Inl Lookup_AttributeError \<Rightarrow> ([], Inl AttributeError_operator_not_found)
         | Inr fn \<Rightarrow>
             (let args = \<lparr>tt_node_types = node_types s, tt_edge_types = edge_types s,
                          tt_colptr_dict = colptr_dict s, tt_row_dict = row_dict s,
                          tt_seed_dict = index_dict,
                          tt_num_neighbors = num_neighbors s,
                          tt_node_time_dict =
                            kwargs_get (kw_node_time_dict kw) (node_time_dict s),
                          tt_num_hops = num_hops s,
                          tt_replace = replace s, tt_directed = directed s\<rparr>
              in ([Ts_hetero_temporal_neighbor_sample args], fn args))))"

section \<open>Reading calls, samplers and outputs\<close>

text \<open>
  Temporal sampling is requested by \<open>time_attr\<close>: the constructor then stores the time
  data in \<open>node_time\<close> (for \<open>Data\<close>) or in \<open>node_time_dict\<close> (otherwise).
\<close>

definition time_configured :: "sampler \<Rightarrow> bool" where
  "time_configured s =
     (if data_cls s = DataCls then node_time s \<noteq> None else node_time_dict s \<noteq> None)"

text \<open>The seed dict of a call to a heterogeneous operator.\<close>

fun call_seed_dict :: "call \<Rightarrow> (string, tensor) dict option" where
  "call_seed_dict (Pyg_hetero_neighbor_sample_cpu a) = Some (ph_seed_dict a)"
| "call_seed_dict (Pyg_neighbor_sample a) = None"
| "call_seed_dict (Ts_hetero_neighbor_sample a) = Some (th_seed_dict a)"
| "call_seed_dict (Ts_hetero_temporal_neighbor_sample a) = Some (tt_seed_dict a)"
| "call_seed_dict (Ts_neighbor_sample a) = None"

text \<open>The \<open>disjoint\<close> argument of a call; only the \<open>pyg-lib\<close> operators have one.\<close>

fun call_disjoint :: "call \<Rightarrow> bool option" where
  "call_disjoint (Pyg_hetero_neighbor_sample_cpu a) = Some (ph_disjoint a)"
| "call_disjoint (Pyg_neighbor_sample a) = Some (pn_disjoint a)"
| "call_disjoint (Ts_hetero_neighbor_sample a) = None"
| "call_disjoint (Ts_hetero_temporal_neighbor_sample a) = None"
| "call_disjoint (Ts_neighbor_sample a) = None"

text \<open>Whether the \<open>batch\<close> field of an output is set.\<close>

fun batch_present :: "sample_output \<Rightarrow> bool" where
  "batch_present (SamplerOutput out) = (batch out \<noteq> None)"
| "batch_present (HeteroSamplerOutput out) = (batch out \<noteq> None)"

fun output_metadata :: "sample_output \<Rightarrow> nat" where
  "output_metadata (SamplerOutput out) = metadata out"
| "output_metadata (HeteroSamplerOutput out) = metadata out"

section \<open>Example graphs and backends\<close>

text \<open>
  A heterogeneous citation graph with two edge types, and a pair of edge types whose
  components contain the separator, so that both join to \<open>a__b__c__d\<close>.
\<close>

definition citation_edge_types :: "edge_type list" where
  "citation_edge_types = [(''paper'', ''cites'', ''paper''), (''author'', ''writes'', ''paper'')]"




text \<open>
  The sampler \<open>__init__\<close> builds for the citation graph with the schedule \<open>[2, 1]\<close> for every
  edge type, seeds of type \<open>paper\<close> and the given time tensors.
\<close>

definition citation_sampler :: "(string, tensor) dict option \<Rightarrow> sampler" where
  "citation_sampler time =
     \<lparr>data_cls = HeteroDataCls,
      num_neighbors = PerRelType [(''paper__cites__paper'', [2, 1]),
                                  (''author__writes__paper'', [2, 1])],
      replace = False, directed = True, node_time = None,
      self_colptr = T1 [], self_row = T1 [], self_perm = T1 [],
      node_time_dict = time,
      node_types = [''paper'', ''author''],
      edge_types = citation_edge_types,
      num_hops = 2, input_type = ''paper'',
      to_rel_type = [((''paper'', ''cites'', ''paper''), ''paper__cites__paper''),
                     ((''author'', ''writes'', ''paper''), ''author__writes__paper'')],
      to_edge_type = [(''paper__cites__paper'', (''paper'', ''cites'', ''paper'')),
                      (''author__writes__paper'', (''author'', ''writes'', ''paper''))],
      row_dict = [(''paper__cites__paper'', T1 [0, 1, 1]),
                  (''author__writes__paper'', T1 [0, 0, 1])],
      colptr_dict = [(''paper__cites__paper'', T1 [0, 1, 1]),
                     (''author__writes__paper'', T1 [0, 0, 1])],
      perm_dict = [(''paper__cites__paper'', T1 [0, 1, 1]),
                   (''author__writes__paper'', T1 [0, 0, 1])]\<rparr>"

text \<open>The sampler \<open>__init__\<close> builds for a chain of three nodes, given as a \<open>Data\<close> object.\<close>

definition chain_sampler :: "tensor option \<Rightarrow> sampler" where
  "chain_sampler time =
     \<lparr>data_cls = DataCls, num_neighbors = Schedule [2, 1], replace = False,
      directed = True, node_time = time,
      self_colptr = T1 [0, 0, 1, 2], self_row = T1 [0, 1], self_perm = T1 [0, 1],
      node_time_dict = None, node_types = [], edge_types = [], num_hops = 0,
      input_type = [], to_rel_type = [], to_edge_type = [],
      row_dict = [], colptr_dict = [], perm_dict = []\<rparr>"

text \<open>
  A backend whose operators answer every call with one fixed subgraph (seed 0, one
  neighbour, one edge); with \<open>disjoint\<close> the \<open>pyg-lib\<close> operators return the nodes paired
  with their batch.  The flags say whether \<open>pyg-lib\<close> is installed and whether
  \<open>torch-sparse\<close> has its temporal operator (where it has not, torch is an older one).
\<close>

definition fixed_hetero_nodes :: "bool \<Rightarrow> (string, tensor) dict" where
  "fixed_hetero_nodes disjoint =
     [(''paper'', if disjoint then T2 2 [[0, 0], [0, 1]] else T1 [0, 1])]"

definition fixed_hetero_edges :: "int \<Rightarrow> (string, tensor) dict" where
  "fixed_hetero_edges x = [(''paper__cites__paper'', T1 [x])]"

definition fixed_backend :: "bool \<Rightarrow> bool \<Rightarrow> backend" where
  "fixed_backend pyg temporal =
     \<lparr>with_pyg_lib = pyg,
      pyg_hetero_neighbor_sample_cpu =
        (\<lambda>a. Inr (fixed_hetero_edges 1, fixed_hetero_edges 0,
                   fixed_hetero_nodes (ph_disjoint a), fixed_hetero_edges 0)),
      pyg_neighbor_sample =
        (\<lambda>a. Inr (T1 [1], T1 [0],
                   (if pn_disjoint a then T2 2 [[0, 0], [0, 1]] else T1 [0, 1]), T1 [0])),
      ts_hetero_neighbor_sample =
        (\<lambda>a. Inr (fixed_hetero_nodes False, fixed_hetero_edges 1,
                   fixed_hetero_edges 0, fixed_hetero_edges 0)),
      ts_hetero_temporal_neighbor_sample =
        (if temporal
         then Inr (\<lambda>a. Inr (fixed_hetero_nodes False, fixed_hetero_edges 1,
                            fixed_hetero_edges 0, fixed_hetero_edges 0))
         else Inl Lookup_RuntimeError),
      ts_neighbor_sample = (\<lambda>a. Inr (T1 [0, 1], T1 [1], T1 [0], T1 [0]))\<rparr>"

definition no_kwargs :: kwargs where
  "no_kwargs = \<lparr>kw_node_time = None, kw_node_time_dict = None\<rparr>"

definition paper_times :: "(string, tensor) dict" where
  "paper_times = [(''paper'', T1 [5, 6])]"

section \<open>Facts about dictionaries\<close>















section \<open>Rekeying by edge type\<close>



section \<open>Facts about the constructor and sample\<close>

lemma remap_init_Inr: "remap_init d m = Inr r \<Longrightarrow> remap_keys d m = Inr r"
  by (simp add: remap_init_def split: sum.splits)


lemma hetero_output_Inr:
  assumes "hetero_output s index nd rw cl ed bt = Inr r"
  shows "\<exists>out. r = HeteroSamplerOutput out \<and> node out = nd \<and> batch out = bt \<and>
           metadata out = numel index \<and>
           remap_keys rw (to_edge_type s) = Inr (row out) \<and>
           remap_keys cl (to_edge_type s) = Inr (col out) \<and>
           remap_keys ed (to_edge_type s) = Inr (edge out)"
  using assms by (auto simp: hetero_output_def split: sum.splits)

lemma sample_hetero_pyg_Inr:
  assumes "sample_hetero_pyg env s index kw = (calls, Inr r)"
  shows "\<exists>out rw cl ed. r = HeteroSamplerOutput out \<and>
           (batch out \<noteq> None \<longleftrightarrow> node_time_dict s \<noteq> None) \<and>
           metadata out = numel index \<and>
           remap_keys rw (to_edge_type s) = Inr (row out) \<and>
           remap_keys cl (to_edge_type s) = Inr (col out) \<and>
           remap_keys ed (to_edge_type s) = Inr (edge out)"
  using assms
  by (auto simp: sample_hetero_pyg_def Let_def split: sum.splits prod.splits if_splits
           dest!: hetero_output_Inr)

lemma sample_hetero_sparse_Inr:
  assumes "sample_hetero_sparse env s index kw = (calls, Inr r)"
  shows "\<exists>out rw cl ed. r = HeteroSamplerOutput out \<and> batch out = None \<and>
           metadata out = numel index \<and>
           remap_keys rw (to_edge_type s) = Inr (row out) \<and>
           remap_keys cl (to_edge_type s) = Inr (col out) \<and>
           remap_keys ed (to_edge_type s) = Inr (edge out)"
  using assms
  by (auto simp: sample_hetero_sparse_def Let_def
           split: sum.splits prod.splits if_splits lookup_failure.splits
           dest!: hetero_output_Inr)

lemma sample_homo_pyg_Inr:
  assumes "sample_homo_pyg env s index kw = (calls, Inr r)"
  shows "\<exists>out. r = SamplerOutput out \<and> (batch out \<noteq> None \<longleftrightarrow> node_time s \<noteq> None) \<and>
           metadata out = numel index"
  using assms
  by (auto simp: sample_homo_pyg_def homo_output_def Let_def
           split: sum.splits prod.splits if_splits)

lemma sample_homo_sparse_Inr:
  assumes "sample_homo_sparse env s index kw = (calls, Inr r)"
  shows "\<exists>out. r = SamplerOutput out \<and> batch out = None \<and> node_time s = None \<and>
           metadata out = numel index"
  using assms
  by (auto simp: sample_homo_sparse_def homo_output_def Let_def
           split: sum.splits prod.splits if_splits)




lemma chain_sampler_init:
  "init_data (Schedule [2, 1]) False True time (T1 [0, 0, 1, 2], T1 [0, 1], T1 [0, 1])
     = Inr (chain_sampler time)"
  by (simp add: init_data_def chain_sampler_def)

lemma sample_rejects_time_on_torch_sparse:
  assumes "data_cls s = DataCls" and "\<not> with_pyg_lib env" and "node_time s \<noteq> None"
  shows "sample env s index kw = ([], Inl ValueError_time_attr_not_supported)"
  using assms by (simp add: sample_def sample_homo_sparse_def)

lemma sparse_neighbor_sample_calls_operator:
  assumes "data_cls s = DataCls"
  shows "sparse_neighbor_sample env s index =
     ([Ts_neighbor_sample
         \<lparr>tn_colptr = self_colptr s, tn_row = self_row s, tn_index = index,
          tn_num_neighbors = num_neighbors s,
          tn_replace = replace s, tn_directed = directed s\<rparr>],
      ts_neighbor_sample env
         \<lparr>tn_colptr = self_colptr s, tn_row = self_row s, tn_index = index,
          tn_num_neighbors = num_neighbors s,
          tn_replace = replace s, tn_directed = directed s\<rparr>)"
  using assms by (simp add: sparse_neighbor_sample_def Let_def)

lemma sample_metadata:
  assumes "sample env s index kw = (calls, Inr r)"
  shows "output_metadata r = numel index"
  using assms
  by (cases "data_cls s")
     (auto simp: sample_def split: if_splits
           dest!: sample_hetero_pyg_Inr sample_hetero_sparse_Inr
                  sample_homo_pyg_Inr sample_homo_sparse_Inr)

section \<open>Claims\<close>




text \<open>
  C5.  A sampler built from a \<open>Data\<close> object with time data, on the \<open>torch-sparse\<close>
  backend, which has no temporal operator for homogeneous graphs.  \<open>sample\<close> rejects the
  call with the ValueError for the unsupported \<open>time_attr\<close> before any operator is called,
  as the claim asks.  \<open>_sparse_neighbor_sample\<close> on the same sampler and seeds has no such
  guard: it calls \<open>torch_sparse.neighbor_sample\<close>, whose arguments hold no time data, and
  returns the operator's result.
\<close>

theorem sparse_neighbor_sample_ignores_time:
  "init_data (Schedule [2, 1]) False True (Some (T1 [1, 2, 3]))
     (T1 [0, 0, 1, 2], T1 [0, 1], T1 [0, 1])
     = Inr (chain_sampler (Some (T1 [1, 2, 3]))) \<and>
   time_configured (chain_sampler (Some (T1 [1, 2, 3]))) \<and>
   \<not> with_pyg_lib (fixed_backend False True) \<and>
   sample (fixed_backend False True) (chain_sampler (Some (T1 [1, 2, 3]))) (T1 [2]) no_kwargs
     = ([], Inl ValueError_time_attr_not_supported) \<and>
   sparse_neighbor_sample (fixed_backend False True) (chain_sampler (Some (T1 [1, 2, 3])))
       (T1 [2])
     = ([Ts_neighbor_sample
          \<lparr>tn_colptr = T1 [0, 0, 1, 2], tn_row = T1 [0, 1], tn_index = T1 [2],
           tn_num_neighbors = Schedule [2, 1], tn_replace = False, tn_directed = True\<rparr>],
        Inr (T1 [0, 1], T1 [1], T1 [0], T1 [0]))"
proof -
  have built: "init_data (Schedule [2, 1]) False True (Some (T1 [1, 2, 3]))
     (T1 [0, 0, 1, 2], T1 [0, 1], T1 [0, 1])
     = Inr (chain_sampler (Some (T1 [1, 2, 3])))"
    by (rule chain_sampler_init)
  have cls: "data_cls (chain_sampler (Some (T1 [1, 2, 3]))) = DataCls"
    and time: "node_time (chain_sampler (Some (T1 [1, 2, 3]))) \<noteq> None"
    by (simp_all add: chain_sampler_def)
  have conf: "time_configured (chain_sampler (Some (T1 [1, 2, 3])))"
    using cls time by (simp add: time_configured_def)
  have nopyg: "\<not> with_pyg_lib (fixed_backend False True)"
    by (simp add: fixed_backend_def)
  have guarded: "sample (fixed_backend False True) (chain_sampler (Some (T1 [1, 2, 3])))
      (T1 [2]) no_kwargs = ([], Inl ValueError_time_attr_not_supported)"
    using cls nopyg time by (rule sample_rejects_time_on_torch_sparse)
  have unguarded: "sparse_neighbor_sample (fixed_backend False True)
      (chain_sampler (Some (T1 [1, 2, 3]))) (T1 [2])
     = ([Ts_neighbor_sample
          \<lparr>tn_colptr = T1 [0, 0, 1, 2], tn_row = T1 [0, 1], tn_index = T1 [2],
           tn_num_neighbors = Schedule [2, 1], tn_replace = False, tn_directed = True\<rparr>],
        Inr (T1 [0, 1], T1 [1], T1 [0], T1 [0]))"
    unfolding sparse_neighbor_sample_calls_operator [OF cls]
    by (simp add: chain_sampler_def fixed_backend_def)
  from built conf nopyg guarded unguarded show ?thesis by blast
qed

text \<open>
  C6, as amended.  The sampler checks no seed type.  In a heterogeneous \<open>sample\<close> call
  the seeds come without a node type and every operator call receives the seed dict
  \<open>{input_type: index}\<close>.  \<open>_hetero_sparse_neighbor_sample\<close> hands the caller's seed dict
  to the operator as it is, and its result does not depend on the configured input type.
\<close>

theorem seeds_take_input_type:
  "(data_cls s \<noteq> DataCls \<longrightarrow>
      (\<forall>c \<in> set (fst (sample env s index kw)).
         call_seed_dict c = Some [(input_type s, index)])) \<and>
   (\<forall>c \<in> set (fst (hetero_sparse_neighbor_sample env s index_dict kw)).
      call_seed_dict c = Some index_dict) \<and>
   hetero_sparse_neighbor_sample env (s\<lparr>input_type := t\<rparr>) index_dict kw
     = hetero_sparse_neighbor_sample env s index_dict kw"
proof -
  have a: "data_cls s \<noteq> DataCls \<longrightarrow>
      (\<forall>c \<in> set (fst (sample env s index kw)).
         call_seed_dict c = Some [(input_type s, index)])"
    by (cases "data_cls s")
       (auto simp: sample_def sample_hetero_pyg_def sample_hetero_sparse_def Let_def
             split: sum.splits lookup_failure.splits)
  have b: "\<forall>c \<in> set (fst (hetero_sparse_neighbor_sample env s index_dict kw)).
      call_seed_dict c = Some index_dict"
    by (auto simp: hetero_sparse_neighbor_sample_def Let_def split: sum.splits lookup_failure.splits)
  have c: "hetero_sparse_neighbor_sample env (s\<lparr>input_type := t\<rparr>) index_dict kw
     = hetero_sparse_neighbor_sample env s index_dict kw"
    by (simp add: hetero_sparse_neighbor_sample_def Let_def split: sum.splits lookup_failure.splits)
  from a b c show ?thesis by blast
qed

text \<open>C6, as amended, at the citation graph.\<close>

theorem seeds_take_input_type_witness:
  "data_cls (citation_sampler None) \<noteq> DataCls \<and>
   input_type (citation_sampler None) = ''paper'' \<and>
   length (fst (sample (fixed_backend True True) (citation_sampler None) (T1 [0, 2])
                  no_kwargs)) = 1 \<and>
   list_all (\<lambda>c. call_seed_dict c = Some [(''paper'', T1 [0, 2])])
     (fst (sample (fixed_backend True True) (citation_sampler None) (T1 [0, 2])
             no_kwargs)) \<and>
   length (fst (hetero_sparse_neighbor_sample (fixed_backend False True)
                  (citation_sampler None) [(''author'', T1 [0])] no_kwargs)) = 1 \<and>
   list_all (\<lambda>c. call_seed_dict c = Some [(''author'', T1 [0])])
     (fst (hetero_sparse_neighbor_sample (fixed_backend False True)
             (citation_sampler None) [(''author'', T1 [0])] no_kwargs))"
proof -
  have h1: "data_cls (citation_sampler None) \<noteq> DataCls \<and>
      input_type (citation_sampler None) = ''paper''"
    by (simp add: citation_sampler_def)
  have h2: "length (fst (sample (fixed_backend True True) (citation_sampler None) (T1 [0, 2])
      no_kwargs)) = 1"
    by (simp add: sample_def sample_hetero_pyg_def citation_sampler_def fixed_backend_def
        Let_def)
  have h3: "length (fst (hetero_sparse_neighbor_sample (fixed_backend False True)
      (citation_sampler None) [(''author'', T1 [0])] no_kwargs)) = 1"
    by (simp add: hetero_sparse_neighbor_sample_def citation_sampler_def Let_def)
  from h1 h2 h3
    seeds_take_input_type [of "citation_sampler None" "fixed_backend True True" "T1 [0, 2]"
      no_kwargs "[]" "[]"]
    seeds_take_input_type [of "citation_sampler None" "fixed_backend False True" "T1 [0]"
      no_kwargs "[(''author'', T1 [0])]" "[]"]
  show ?thesis unfolding list_all_iff by simp
qed

text \<open>
  C6 as stated fails: with input type \<open>paper\<close> configured, seeds of type \<open>author\<close> given
  to \<open>_hetero_sparse_neighbor_sample\<close> reach the operator, whose result is returned.
\<close>

theorem type_mismatch_counterexample:
  "input_type (citation_sampler None) = ''paper'' \<and>
   dict_keys [(''author'', T1 [0])] = [''author''] \<and>
   snd (hetero_sparse_neighbor_sample (fixed_backend False True) (citation_sampler None)
          [(''author'', T1 [0])] no_kwargs)
     = Inr ([(''paper'', T1 [0, 1])], [(''paper__cites__paper'', T1 [1])],
            [(''paper__cites__paper'', T1 [0])], [(''paper__cites__paper'', T1 [0])])"
  by (simp add: hetero_sparse_neighbor_sample_def citation_sampler_def fixed_backend_def
      fixed_hetero_nodes_def fixed_hetero_edges_def dict_keys_def Let_def)

text \<open>
  C7, as amended.  A \<open>sample\<close> call that returns has its batch field set exactly when
  \<open>pyg-lib\<close> is the backend and node time data was configured; the \<open>disjoint\<close> argument of
  the \<open>pyg-lib\<close> operators is that same condition on the time data, and the
  \<open>torch-sparse\<close> operators have no such argument.  In particular the batch field is
  None whenever no time data was configured.
\<close>

theorem batch_iff_pyg_and_time:
  assumes "sample env s index kw = (calls, Inr r)"
  shows "(batch_present r \<longleftrightarrow> with_pyg_lib env \<and> time_configured s) \<and>
         (\<forall>c \<in> set calls.
            call_disjoint c = (if with_pyg_lib env then Some (time_configured s) else None))"
proof -
  have b: "batch_present r \<longleftrightarrow> with_pyg_lib env \<and> time_configured s"
    using assms
    by (cases "data_cls s")
       (auto simp: sample_def time_configured_def split: if_splits
             dest!: sample_hetero_pyg_Inr sample_hetero_sparse_Inr
                    sample_homo_pyg_Inr sample_homo_sparse_Inr)
  have c: "\<forall>c \<in> set calls.
      call_disjoint c = (if with_pyg_lib env then Some (time_configured s) else None)"
    using assms
    by (cases "data_cls s")
       (auto simp: sample_def time_configured_def sample_hetero_pyg_def
             sample_hetero_sparse_def sample_homo_pyg_def sample_homo_sparse_def Let_def
             split: if_splits sum.splits lookup_failure.splits)
  from b c show ?thesis ..
qed

text \<open>C7, as amended, at the chain graph with time data on \<open>pyg-lib\<close>.\<close>

theorem batch_iff_pyg_and_time_witness:
  "sample (fixed_backend True True) (chain_sampler (Some (T1 [1, 2, 3]))) (T1 [2]) no_kwargs
     = ([Pyg_neighbor_sample
          \<lparr>pn_colptr = T1 [0, 0, 1, 2], pn_row = T1 [0, 1], pn_seed = T1 [2],
           pn_num_neighbors = Schedule [2, 1], pn_node_time = Some (T1 [1, 2, 3]),
           pn_csc = True, pn_replace = False, pn_directed = True, pn_disjoint = True,
           pn_return_edge_id = True\<rparr>],
        Inr (SamplerOutput
          \<lparr>node = T1 [0, 1], row = T1 [1], col = T1 [0], edge = T1 [0],
           batch = Some (T1 [0, 0]), metadata = 1\<rparr>)) \<and>
   batch_present (SamplerOutput
          \<lparr>node = T1 [0, 1], row = T1 [1], col = T1 [0], edge = T1 [0],
           batch = Some (T1 [0, 0]), metadata = 1\<rparr>) \<and>
   with_pyg_lib (fixed_backend True True) \<and>
   time_configured (chain_sampler (Some (T1 [1, 2, 3])))"
proof -
  have run: "sample (fixed_backend True True) (chain_sampler (Some (T1 [1, 2, 3]))) (T1 [2])
      no_kwargs
     = ([Pyg_neighbor_sample
          \<lparr>pn_colptr = T1 [0, 0, 1, 2], pn_row = T1 [0, 1], pn_seed = T1 [2],
           pn_num_neighbors = Schedule [2, 1], pn_node_time = Some (T1 [1, 2, 3]),
           pn_csc = True, pn_replace = False, pn_directed = True, pn_disjoint = True,
           pn_return_edge_id = True\<rparr>],
        Inr (SamplerOutput
          \<lparr>node = T1 [0, 1], row = T1 [1], col = T1 [0], edge = T1 [0],
           batch = Some (T1 [0, 0]), metadata = 1\<rparr>))"
    by (simp add: sample_def sample_homo_pyg_def chain_sampler_def fixed_backend_def
        homo_output_def unpack2_def no_kwargs_def kwargs_get_def Let_def upt_rec)
  from batch_iff_pyg_and_time [OF run] run show ?thesis by simp
qed

text \<open>
  C7 as stated fails: on \<open>torch-sparse\<close> with its temporal operator, a heterogeneous
  sampler with time data returns an output whose batch field is None.
\<close>

theorem batch_iff_time_counterexample:
  "time_configured (citation_sampler (Some paper_times)) \<and>
   snd (sample (fixed_backend False True) (citation_sampler (Some paper_times)) (T1 [0])
          no_kwargs)
     = Inr (HeteroSamplerOutput
         \<lparr>node = [(''paper'', T1 [0, 1])],
          row = [((''paper'', ''cites'', ''paper''), T1 [1])],
          col = [((''paper'', ''cites'', ''paper''), T1 [0])],
          edge = [((''paper'', ''cites'', ''paper''), T1 [0])],
          batch = None, metadata = 1\<rparr>) \<and>
   \<not> batch_present (HeteroSamplerOutput
         \<lparr>node = [(''paper'', T1 [0, 1])],
          row = [((''paper'', ''cites'', ''paper''), T1 [1])],
          col = [((''paper'', ''cites'', ''paper''), T1 [0])],
          edge = [((''paper'', ''cites'', ''paper''), T1 [0])],
          batch = None, metadata = 1\<rparr>)"
  by (simp add: time_configured_def sample_def sample_hetero_sparse_def citation_sampler_def
      fixed_backend_def fixed_hetero_nodes_def fixed_hetero_edges_def hetero_output_def
      remap_keys_def paper_times_def Let_def)

end
